theory Spec2Isabelle
  imports Main "HOL-Library.Word"
begin

section \<open>Abstract syntax (ast_nodes.py)\<close>

text \<open>
  A Python float is an IEEE-754 binary64 value; the model keeps its 64 bits and takes
  every operation on floats from the host (see the record \<open>host\<close> below).
\<close>

type_synonym pyfloat = "64 word"

text \<open>
  The value field of a LiteralExpression: the parser stores a Python bool, int, float
  or str there.
\<close>

datatype const = CBool bool | CInt int | CFloat pyfloat | CStr string

text \<open>
  The target of an AssignmentExpression is an IdentifierExpression; the node keeps its
  name. The body of a FunctionDeclaration is a BlockStatement; the node keeps its
  statements.
\<close>

datatype Expression =
    LiteralExpression const string
  | IdentifierExpression string
  | BinaryExpression Expression string Expression
  | UnaryExpression string Expression
  | CallExpression Expression "Expression list"
  | AssignmentExpression string Expression

datatype Statement =
    VariableDeclaration string "Expression option"
  | FunctionDeclaration string "string list" "Statement list"
  | ExpressionStatement Expression
  | BlockStatement "Statement list"
  | IfStatement Expression Statement "Statement option"
  | ForStatement "Statement option" "Expression option" "Expression option" Statement
  | WhileStatement Expression Statement
  | ReturnStatement "Expression option"
  | GorunStatement Expression

datatype Program = Program "Statement list"

section \<open>Values and environments (interpreter.py)\<close>

text \<open>
  An Environment object is its \<open>variables\<close> dictionary, kept in the store under an
  address, and its \<open>parent\<close>, which is assigned once in the constructor and never
  again: the reference carries the address and the parent reference.
\<close>

datatype Environment = Environment (variables: nat) (parent: "Environment option")

text \<open>
  Runtime values are the Python objects the interpreter handles: None, bool, int, float,
  str and KSFunction (with the identity of the object, its declaration and its closure).
\<close>

datatype val =
    VNone
  | VBool bool
  | VInt int
  | VFloat pyfloat
  | VStr string
  | KSFunction nat string "string list" "Statement list" Environment

datatype pyexc =
    KSRuntimeError string
  | ParseError string
  | SyntaxError string
  | TypeError
  | ValueError
  | ZeroDivisionError
  | OverflowError
  | IndexError

text \<open>
  How a call completes: normally with a result, with an exception, or with the
  ReturnValue exception that carries a value to the innermost function call.
\<close>

datatype 'a completion = Normal 'a | Raised pyexc | ReturnValue val

type_synonym store = "nat \<Rightarrow> (string \<rightharpoonup> val)"

definition undefined_variable :: "string \<Rightarrow> pyexc" where
  "undefined_variable name =
     KSRuntimeError (''Undefined variable '' @ [CHR 0x27] @ name @ [CHR 0x27])"

definition Environment_define :: "Environment \<Rightarrow> string \<Rightarrow> val \<Rightarrow> store \<Rightarrow> store" where
  "Environment_define e name v st = st(variables e := (st (variables e))(name \<mapsto> v))"

fun Environment_get :: "Environment \<Rightarrow> string \<Rightarrow> store \<Rightarrow> val completion" where
  "Environment_get (Environment a p) name st =
     (case st a name of
        Some v \<Rightarrow> Normal v
      | None \<Rightarrow>
          (case p of
             Some e \<Rightarrow> Environment_get e name st
           | None \<Rightarrow> Raised (undefined_variable name)))"

fun Environment_assign :: "Environment \<Rightarrow> string \<Rightarrow> val \<Rightarrow> store \<Rightarrow> unit completion \<times> store" where
  "Environment_assign (Environment a p) name v st =
     (if st a name \<noteq> None then (Normal (), st(a := (st a)(name \<mapsto> v)))
      else
        (case p of
           Some e \<Rightarrow>
             (case Environment_assign e name v st of
                (Raised (KSRuntimeError m), st') \<Rightarrow> (Raised (undefined_variable name), st')
              | r \<Rightarrow> r)
         | None \<Rightarrow> (Raised (undefined_variable name), st)))"

text \<open>The addresses of the dictionaries on the parent chain, innermost first.\<close>

fun chain :: "Environment \<Rightarrow> nat list" where
  "chain (Environment a p) = a # (case p of Some e \<Rightarrow> chain e | None \<Rightarrow> [])"

section \<open>Python's operators on the interpreter's values\<close>

text \<open>
  Float arithmetic, the default \<open>str\<close> of an object and \<open>%\<close>-formatting of a str
  belong to the host and are taken as parameters. \<open>float_arith\<close> is asked only when an
  operand is a float, or for the true division of two ints by a nonzero divisor.
  Resource limits of the host (memory, recursion depth, the digit limit on int and str
  conversions) are not part of the model.
\<close>

datatype pynum = NInt int | NFloat pyfloat

record host =
  float_of_str :: "string \<Rightarrow> pyfloat"
  float_arith :: "string \<Rightarrow> pynum \<Rightarrow> pynum \<Rightarrow> pyexc + pyfloat"
  float_compare :: "string \<Rightarrow> pynum \<Rightarrow> pynum \<Rightarrow> bool"
  float_neg :: "pyfloat \<Rightarrow> pyfloat"
  float_str :: "pyfloat \<Rightarrow> string"
  object_str :: "nat \<Rightarrow> string"
  str_format :: "string \<Rightarrow> val \<Rightarrow> pyexc + string"

text \<open>bool is a subclass of int: True and False take part in arithmetic as 1 and 0.\<close>

fun as_num :: "val \<Rightarrow> pynum option" where
  "as_num (VBool b) = Some (NInt (if b then 1 else 0))"
| "as_num (VInt i) = Some (NInt i)"
| "as_num (VFloat f) = Some (NFloat f)"
| "as_num v = None"

fun is_str :: "val \<Rightarrow> bool" where
  "is_str (VStr s) = True"
| "is_str v = False"

function str_nat :: "nat \<Rightarrow> string" where
  "str_nat n = (if n < 10 then [char_of (48 + n)] else str_nat (n div 10) @ [char_of (48 + n mod 10)])"
  by pat_completeness auto
termination
  by (relation "measure (\<lambda>n. n)") auto

definition str_int :: "int \<Rightarrow> string" where
  "str_int i = (if i < 0 then CHR ''-'' # str_nat (nat (- i)) else str_nat (nat i))"

fun py_str :: "host \<Rightarrow> val \<Rightarrow> string" where
  "py_str h VNone = ''None''"
| "py_str h (VBool b) = (if b then ''True'' else ''False'')"
| "py_str h (VInt i) = str_int i"
| "py_str h (VFloat f) = float_str h f"
| "py_str h (VStr s) = s"
| "py_str h (KSFunction i name params body closure) = object_str h i"

definition float_result :: "pyexc + pyfloat \<Rightarrow> val completion" where
  "float_result r = (case r of Inl e \<Rightarrow> Raised e | Inr f \<Rightarrow> Normal (VFloat f))"

fun num_arith :: "host \<Rightarrow> string \<Rightarrow> pynum \<Rightarrow> pynum \<Rightarrow> val completion" where
  "num_arith h opr (NInt x) (NInt y) =
     (if opr = ''+'' then Normal (VInt (x + y))
      else if opr = ''-'' then Normal (VInt (x - y))
      else if opr = ''*'' then Normal (VInt (x * y))
      else if y = 0 then Raised ZeroDivisionError
      else if opr = ''%'' then Normal (VInt (x mod y))
      else float_result (float_arith h opr (NInt x) (NInt y)))"
| "num_arith h opr a b = float_result (float_arith h opr a b)"

fun num_compare :: "host \<Rightarrow> string \<Rightarrow> pynum \<Rightarrow> pynum \<Rightarrow> bool" where
  "num_compare h opr (NInt x) (NInt y) =
     (if opr = ''=='' then x = y
      else if opr = ''<'' then x < y
      else if opr = ''>'' then x > y
      else if opr = ''<='' then x \<le> y
      else x \<ge> y)"
| "num_compare h opr a b = float_compare h opr a b"

fun str_less :: "string \<Rightarrow> string \<Rightarrow> bool" where
  "str_less [] [] = False"
| "str_less [] (y # ys) = True"
| "str_less (x # xs) [] = False"
| "str_less (x # xs) (y # ys) =
     ((of_char x :: nat) < of_char y \<or> (x = y \<and> str_less xs ys))"

definition str_compare :: "string \<Rightarrow> string \<Rightarrow> string \<Rightarrow> bool" where
  "str_compare opr s t =
     (if opr = ''<'' then str_less s t
      else if opr = ''>'' then str_less t s
      else if opr = ''<='' then \<not> str_less t s
      else \<not> str_less s t)"

definition py_add :: "host \<Rightarrow> val \<Rightarrow> val \<Rightarrow> val completion" where
  "py_add h l r =
     (case (as_num l, as_num r) of
        (Some a, Some b) \<Rightarrow> num_arith h ''+'' a b
      | _ \<Rightarrow> (case (l, r) of (VStr s, VStr t) \<Rightarrow> Normal (VStr (s @ t)) | _ \<Rightarrow> Raised TypeError))"

definition py_sub :: "host \<Rightarrow> val \<Rightarrow> val \<Rightarrow> val completion" where
  "py_sub h l r =
     (case (as_num l, as_num r) of
        (Some a, Some b) \<Rightarrow> num_arith h ''-'' a b
      | _ \<Rightarrow> Raised TypeError)"

text \<open>A str times an int (or bool) is the str repeated; a count below one gives the empty str.\<close>

definition repeat :: "string \<Rightarrow> int \<Rightarrow> string" where
  "repeat s k = concat (replicate (nat k) s)"

definition py_mul :: "host \<Rightarrow> val \<Rightarrow> val \<Rightarrow> val completion" where
  "py_mul h l r =
     (case (as_num l, as_num r) of
        (Some a, Some b) \<Rightarrow> num_arith h ''*'' a b
      | (None, Some (NInt k)) \<Rightarrow> (case l of VStr s \<Rightarrow> Normal (VStr (repeat s k)) | _ \<Rightarrow> Raised TypeError)
      | (Some (NInt k), None) \<Rightarrow> (case r of VStr s \<Rightarrow> Normal (VStr (repeat s k)) | _ \<Rightarrow> Raised TypeError)
      | _ \<Rightarrow> Raised TypeError)"

definition py_truediv :: "host \<Rightarrow> val \<Rightarrow> val \<Rightarrow> val completion" where
  "py_truediv h l r =
     (case (as_num l, as_num r) of
        (Some a, Some b) \<Rightarrow> num_arith h ''/'' a b
      | _ \<Rightarrow> Raised TypeError)"

definition py_mod :: "host \<Rightarrow> val \<Rightarrow> val \<Rightarrow> val completion" where
  "py_mod h l r =
     (case l of
        VStr s \<Rightarrow> (case str_format h s r of Inl e \<Rightarrow> Raised e | Inr t \<Rightarrow> Normal (VStr t))
      | _ \<Rightarrow>
        (case (as_num l, as_num r) of
           (Some a, Some b) \<Rightarrow> num_arith h ''%'' a b
         | _ \<Rightarrow> Raised TypeError))"

definition py_neg :: "host \<Rightarrow> val \<Rightarrow> val completion" where
  "py_neg h v =
     (case as_num v of
        Some (NInt x) \<Rightarrow> Normal (VInt (- x))
      | Some (NFloat f) \<Rightarrow> Normal (VFloat (float_neg h f))
      | None \<Rightarrow> Raised TypeError)"

text \<open>
  \<open>==\<close>: numbers compare by value, strs by content, None equals None, and a KSFunction
  (a class without \<open>__eq__\<close>) equals only itself.
\<close>

definition py_eq :: "host \<Rightarrow> val \<Rightarrow> val \<Rightarrow> bool" where
  "py_eq h l r =
     (case (as_num l, as_num r) of
        (Some a, Some b) \<Rightarrow> num_compare h ''=='' a b
      | _ \<Rightarrow>
        (case (l, r) of
           (VNone, VNone) \<Rightarrow> True
         | (VStr s, VStr t) \<Rightarrow> s = t
         | (KSFunction i n1 p1 b1 c1, KSFunction j n2 p2 b2 c2) \<Rightarrow> i = j
         | _ \<Rightarrow> False))"

definition py_compare :: "host \<Rightarrow> string \<Rightarrow> val \<Rightarrow> val \<Rightarrow> val completion" where
  "py_compare h opr l r =
     (case (as_num l, as_num r) of
        (Some a, Some b) \<Rightarrow> Normal (VBool (num_compare h opr a b))
      | _ \<Rightarrow>
        (case (l, r) of
           (VStr s, VStr t) \<Rightarrow> Normal (VBool (str_compare opr s t))
         | _ \<Rightarrow> Raised TypeError))"

section \<open>The interpreter (interpreter.py)\<close>

definition is_truthy :: "val \<Rightarrow> bool" where
  "is_truthy v = (case v of VNone \<Rightarrow> False | VBool b \<Rightarrow> b | _ \<Rightarrow> True)"

definition endswith :: "string \<Rightarrow> string \<Rightarrow> bool" where
  "endswith s suffix = (length suffix \<le> length s \<and> drop (length s - length suffix) s = suffix)"

definition stringify :: "host \<Rightarrow> val \<Rightarrow> string" where
  "stringify h v =
     (case v of
        VNone \<Rightarrow> ''null''
      | VBool b \<Rightarrow> (if b then ''true'' else ''false'')
      | VFloat f \<Rightarrow>
          (let text = py_str h v in
           if endswith text ''.0'' then take (length text - 2) text else text)
      | _ \<Rightarrow> py_str h v)"

fun val_of_const :: "const \<Rightarrow> val" where
  "val_of_const (CBool b) = VBool b"
| "val_of_const (CInt i) = VInt i"
| "val_of_const (CFloat f) = VFloat f"
| "val_of_const (CStr s) = VStr s"

text \<open>
  The operator dispatch of \<open>visit_binary\<close>, applied to the values of the two operands
  (which \<open>visit_binary\<close> has both evaluated before it looks at the operator).
\<close>

definition binary_operator :: "host \<Rightarrow> string \<Rightarrow> val \<Rightarrow> val \<Rightarrow> val completion" where
  "binary_operator h opr left right =
     (if opr = ''+'' then
        (if is_str left \<or> is_str right then Normal (VStr (py_str h left @ py_str h right))
         else py_add h left right)
      else if opr = ''-'' then py_sub h left right
      else if opr = ''*'' then py_mul h left right
      else if opr = ''/'' then
        (if py_eq h right (VInt 0) then Raised (KSRuntimeError ''Division by zero'')
         else py_truediv h left right)
      else if opr = ''%'' then py_mod h left right
      else if opr = ''=='' then Normal (VBool (py_eq h left right))
      else if opr = ''!='' then Normal (VBool (\<not> py_eq h left right))
      else if opr = ''<'' then py_compare h ''<'' left right
      else if opr = ''>'' then py_compare h ''>'' left right
      else if opr = ''<='' then py_compare h ''<='' left right
      else if opr = ''>='' then py_compare h ''>='' left right
      else if opr = ''&&'' then Normal (VBool (is_truthy left \<and> is_truthy right))
      else if opr = ''||'' then Normal (VBool (is_truthy left \<or> is_truthy right))
      else Raised (KSRuntimeError (''Unknown binary operator: '' @ opr)))"

definition unary_operator :: "host \<Rightarrow> string \<Rightarrow> val \<Rightarrow> val completion" where
  "unary_operator h opr operand =
     (if opr = ''-'' then py_neg h operand
      else if opr = ''!'' then Normal (VBool (\<not> is_truthy operand))
      else Raised (KSRuntimeError (''Unknown unary operator: '' @ opr)))"

text \<open>
  The state of a run: the two fields of the Interpreter object, the \<open>variables\<close>
  dictionaries of all Environment objects by address, the next fresh object identity,
  and the lines printed so far on the two streams.
\<close>

record Interpreter =
  globals :: Environment
  environment :: Environment
  store :: store
  next_id :: nat
  stdout :: "string list"
  stderr :: "string list"

text \<open>\<open>Interpreter()\<close>: the global Environment is object 0 and is the current one.\<close>

definition new_Interpreter :: Interpreter where
  "new_Interpreter =
     \<lparr>globals = Environment 0 None, environment = Environment 0 None,
      store = (\<lambda>a. Map.empty), next_id = 1, stdout = [], stderr = []\<rparr>"

text \<open>\<open>Environment(parent)\<close>: a new object with an empty dictionary.\<close>

definition new_Environment :: "Environment \<Rightarrow> Interpreter \<Rightarrow> Environment \<times> Interpreter" where
  "new_Environment par s =
     (Environment (next_id s) (Some par),
      s\<lparr>store := (store s)(next_id s := Map.empty), next_id := Suc (next_id s)\<rparr>)"

text \<open>
  A run that needs more than the given number of nested steps has the result \<open>None\<close>;
  otherwise it completes, with the state it leaves.
\<close>

type_synonym 'a run = "('a completion \<times> Interpreter) option"

definition and_then :: "'a run \<Rightarrow> ('a \<Rightarrow> Interpreter \<Rightarrow> 'b run) \<Rightarrow> 'b run" where
  "and_then m f =
     (case m of
        None \<Rightarrow> None
      | Some (Normal a, s) \<Rightarrow> f a s
      | Some (Raised e, s) \<Rightarrow> Some (Raised e, s)
      | Some (ReturnValue v, s) \<Rightarrow> Some (ReturnValue v, s))"

text \<open>\<open>try: ... finally: self.environment = previous\<close>.\<close>

definition finally_restore :: "Environment \<Rightarrow> 'a run \<Rightarrow> 'a run" where
  "finally_restore previous m =
     (case m of None \<Rightarrow> None | Some (c, s) \<Rightarrow> Some (c, s\<lparr>environment := previous\<rparr>))"

text \<open>The parameter loop of \<open>KSFunction.call\<close>, with its index \<open>i\<close>.\<close>

fun bind_parameters :: "Environment \<Rightarrow> string list \<Rightarrow> val list \<Rightarrow> nat \<Rightarrow> store \<Rightarrow> store" where
  "bind_parameters e [] arguments i st = st"
| "bind_parameters e (param # params) arguments i st =
     bind_parameters e params arguments (Suc i)
       (if i < length arguments then Environment_define e param (arguments ! i) st
        else Environment_define e param VNone st)"

definition arity_error :: "nat \<Rightarrow> nat \<Rightarrow> pyexc" where
  "arity_error expected got =
     KSRuntimeError (''Expected '' @ str_nat expected @ '' arguments but got '' @ str_nat got)"

function (sequential) evaluate :: "host \<Rightarrow> nat \<Rightarrow> Expression \<Rightarrow> Interpreter \<Rightarrow> val run"
  and evaluate_arguments :: "host \<Rightarrow> nat \<Rightarrow> Expression list \<Rightarrow> val list \<Rightarrow> Interpreter \<Rightarrow> (val list) run"
  and KSFunction_call :: "host \<Rightarrow> nat \<Rightarrow> val \<Rightarrow> val list \<Rightarrow> Interpreter \<Rightarrow> val run"
  and execute :: "host \<Rightarrow> nat \<Rightarrow> Statement \<Rightarrow> Interpreter \<Rightarrow> val run"
  and execute_statements :: "host \<Rightarrow> nat \<Rightarrow> Statement list \<Rightarrow> Interpreter \<Rightarrow> unit run"
  and execute_block :: "host \<Rightarrow> nat \<Rightarrow> Statement list \<Rightarrow> Environment \<Rightarrow> Interpreter \<Rightarrow> unit run"
  and for_loop :: "host \<Rightarrow> nat \<Rightarrow> Expression option \<Rightarrow> Expression option \<Rightarrow> Statement \<Rightarrow> Interpreter \<Rightarrow> unit run"
  and while_loop :: "host \<Rightarrow> nat \<Rightarrow> Expression \<Rightarrow> Statement \<Rightarrow> Interpreter \<Rightarrow> unit run"
where
  "evaluate h 0 e s = None"
| "evaluate h (Suc n) (LiteralExpression c t) s = Some (Normal (val_of_const c), s)"
| "evaluate h (Suc n) (IdentifierExpression name) s =
     Some (Environment_get (environment s) name (store s), s)"
| "evaluate h (Suc n) (BinaryExpression l opr r) s =
     and_then (evaluate h n l s) (\<lambda>left s1.
     and_then (evaluate h n r s1) (\<lambda>right s2.
       Some (binary_operator h opr left right, s2)))"
| "evaluate h (Suc n) (UnaryExpression opr e) s =
     and_then (evaluate h n e s) (\<lambda>operand s1.
       Some (unary_operator h opr operand, s1))"
| "evaluate h (Suc n) (CallExpression f args) s =
     and_then (evaluate h n f s) (\<lambda>callee s1.
     and_then (evaluate_arguments h n args [] s1) (\<lambda>arguments s2.
       (case callee of
          KSFunction i name params body closure \<Rightarrow>
            if length arguments \<noteq> length params
            then Some (Raised (arity_error (length params) (length arguments)), s2)
            else KSFunction_call h n callee arguments s2
        | _ \<Rightarrow> Some (Raised (KSRuntimeError ''Can only call functions''), s2))))"
| "evaluate h (Suc n) (AssignmentExpression name e) s =
     and_then (evaluate h n e s) (\<lambda>v s1.
       (case Environment_assign (environment s1) name v (store s1) of
          (Normal u, st) \<Rightarrow> Some (Normal v, s1\<lparr>store := st\<rparr>)
        | (Raised x, st) \<Rightarrow> Some (Raised x, s1\<lparr>store := st\<rparr>)
        | (ReturnValue w, st) \<Rightarrow> Some (ReturnValue w, s1\<lparr>store := st\<rparr>)))"

| "evaluate_arguments h 0 args arguments s = None"
| "evaluate_arguments h (Suc n) [] arguments s = Some (Normal arguments, s)"
| "evaluate_arguments h (Suc n) (arg # args) arguments s =
     and_then (evaluate h n arg s) (\<lambda>v s1.
       evaluate_arguments h n args (arguments @ [v]) s1)"

| "KSFunction_call h 0 callee arguments s = None"
| "KSFunction_call h (Suc n) callee arguments s =
     (case callee of
        KSFunction i name params body closure \<Rightarrow>
          (case new_Environment closure s of
             (env, s1) \<Rightarrow>
               (case execute_block h n body env
                       (s1\<lparr>store := bind_parameters env params arguments 0 (store s1)\<rparr>) of
                  None \<Rightarrow> None
                | Some (ReturnValue v, s2) \<Rightarrow> Some (Normal v, s2)
                | Some (Raised x, s2) \<Rightarrow> Some (Raised x, s2)
                | Some (Normal u, s2) \<Rightarrow> Some (Normal VNone, s2)))
      | _ \<Rightarrow> Some (Raised TypeError, s))"

| "execute h 0 stmt s = None"
| "execute h (Suc n) (VariableDeclaration name initializer) s =
     (case initializer of
        Some e \<Rightarrow>
          and_then (evaluate h n e s) (\<lambda>v s1.
            Some (Normal VNone, s1\<lparr>store := Environment_define (environment s1) name v (store s1)\<rparr>))
      | None \<Rightarrow>
          Some (Normal VNone, s\<lparr>store := Environment_define (environment s) name VNone (store s)\<rparr>))"
| "execute h (Suc n) (FunctionDeclaration name params body) s =
     Some (Normal VNone,
       s\<lparr>store := Environment_define (environment s) name
                    (KSFunction (next_id s) name params body (environment s)) (store s),
         next_id := Suc (next_id s)\<rparr>)"
| "execute h (Suc n) (ExpressionStatement e) s = evaluate h n e s"
| "execute h (Suc n) (BlockStatement statements) s =
     (case new_Environment (environment s) s of
        (env, s1) \<Rightarrow>
          and_then (execute_block h n statements env s1) (\<lambda>u s2. Some (Normal VNone, s2)))"
| "execute h (Suc n) (IfStatement condition then_branch else_branch) s =
     and_then (evaluate h n condition s) (\<lambda>condition_v s1.
       if is_truthy condition_v then
         and_then (execute h n then_branch s1) (\<lambda>u s2. Some (Normal VNone, s2))
       else
         (case else_branch of
            Some stmt \<Rightarrow> and_then (execute h n stmt s1) (\<lambda>u s2. Some (Normal VNone, s2))
          | None \<Rightarrow> Some (Normal VNone, s1)))"
| "execute h (Suc n) (ForStatement initializer condition increment body) s =
     (case new_Environment (environment s) s of
        (env, s1) \<Rightarrow>
          and_then
            (finally_restore (environment s)
               (and_then
                  (case initializer of
                     Some stmt \<Rightarrow> execute h n stmt (s1\<lparr>environment := env\<rparr>)
                   | None \<Rightarrow> Some (Normal VNone, s1\<lparr>environment := env\<rparr>))
                  (\<lambda>u s2. for_loop h n condition increment body s2)))
            (\<lambda>u s3. Some (Normal VNone, s3)))"
| "execute h (Suc n) (WhileStatement condition body) s =
     and_then (while_loop h n condition body s) (\<lambda>u s1. Some (Normal VNone, s1))"
| "execute h (Suc n) (ReturnStatement e) s =
     (case e of
        Some ex \<Rightarrow> and_then (evaluate h n ex s) (\<lambda>v s1. Some (ReturnValue v, s1))
      | None \<Rightarrow> Some (ReturnValue VNone, s))"
| "execute h (Suc n) (GorunStatement e) s =
     and_then (evaluate h n e s) (\<lambda>v s1.
       Some (Normal VNone, s1\<lparr>stdout := stdout s1 @ [stringify h v]\<rparr>))"

| "execute_statements h 0 statements s = None"
| "execute_statements h (Suc n) [] s = Some (Normal (), s)"
| "execute_statements h (Suc n) (statement # statements) s =
     and_then (execute h n statement s) (\<lambda>u s1. execute_statements h n statements s1)"

| "execute_block h 0 statements env s = None"
| "execute_block h (Suc n) statements env s =
     finally_restore (environment s)
       (execute_statements h n statements (s\<lparr>environment := env\<rparr>))"

| "for_loop h 0 condition increment body s = None"
| "for_loop h (Suc n) condition increment body s =
     and_then
       (case condition of
          Some c \<Rightarrow> and_then (evaluate h n c s) (\<lambda>condition_v s1. Some (Normal (is_truthy condition_v), s1))
        | None \<Rightarrow> Some (Normal True, s))
       (\<lambda>go s1.
          if \<not> go then Some (Normal (), s1)
          else
            and_then (execute h n body s1) (\<lambda>u s2.
            and_then
              (case increment of
                 Some e \<Rightarrow> evaluate h n e s2
               | None \<Rightarrow> Some (Normal VNone, s2))
              (\<lambda>u s3. for_loop h n condition increment body s3)))"

| "while_loop h 0 condition body s = None"
| "while_loop h (Suc n) condition body s =
     and_then (evaluate h n condition s) (\<lambda>condition_v s1.
       if is_truthy condition_v then
         and_then (execute h n body s1) (\<lambda>u s2. while_loop h n condition body s2)
       else Some (Normal (), s1))"
  by pat_completeness auto
termination
  by (relation "measure
     (case_sum (case_sum (case_sum (\<lambda>p. fst (snd p)) (\<lambda>p. fst (snd p))) (case_sum (\<lambda>p. fst (snd p)) (\<lambda>p. fst (snd p)))) 
       (case_sum (case_sum (\<lambda>p. fst (snd p)) (\<lambda>p. fst (snd p))) (case_sum (\<lambda>p. fst (snd p)) (\<lambda>p. fst (snd p)))))") auto

text \<open>\<open>visit_program\<close> runs the statements in the current environment.\<close>

definition visit_program :: "host \<Rightarrow> nat \<Rightarrow> Program \<Rightarrow> Interpreter \<Rightarrow> val run" where
  "visit_program h n prog s =
     (case prog of Program statements \<Rightarrow>
        and_then (execute_statements h n statements s) (\<lambda>u s1. Some (Normal VNone, s1)))"

text \<open>
  \<open>interpret\<close> catches KSRuntimeError only: it prints the message on the error stream
  and returns False. Any other exception leaves \<open>interpret\<close>.
\<close>

definition interpret_program :: "host \<Rightarrow> nat \<Rightarrow> Program \<Rightarrow> Interpreter \<Rightarrow> bool run" where
  "interpret_program h n prog s =
     (case visit_program h n prog s of
        None \<Rightarrow> None
      | Some (Raised (KSRuntimeError m), s1) \<Rightarrow>
          Some (Normal False, s1\<lparr>stderr := stderr s1 @ [''Runtime Error: '' @ m]\<rparr>)
      | Some (Raised x, s1) \<Rightarrow> Some (Raised x, s1)
      | Some (ReturnValue v, s1) \<Rightarrow> Some (ReturnValue v, s1)
      | Some (Normal u, s1) \<Rightarrow> Some (Normal True, s1))"

section \<open>The lexer (lexer.py)\<close>

datatype TokenType =
    NUMBER | STRING | BOOLEAN | IDENTIFIER
  | LET | FUNC | IF | ELSE | FOR | WHILE | RETURN | GORUN | TRUE | FALSE
  | PLUS | MINUS | MULTIPLY | DIVIDE | MODULO | ASSIGN
  | EQUAL | NOT_EQUAL | LESS_THAN | GREATER_THAN | LESS_EQUAL | GREATER_EQUAL
  | AND | OR | NOT
  | SEMICOLON | COMMA | LEFT_PAREN | RIGHT_PAREN | LEFT_BRACE | RIGHT_BRACE
  | EOF | NEWLINE | WHITESPACE

text \<open>The \<open>value\<close> of a member of the enum is its own name.\<close>

fun TokenType_value :: "TokenType \<Rightarrow> string" where
  "TokenType_value NUMBER = ''NUMBER''"
| "TokenType_value STRING = ''STRING''"
| "TokenType_value BOOLEAN = ''BOOLEAN''"
| "TokenType_value IDENTIFIER = ''IDENTIFIER''"
| "TokenType_value LET = ''LET''"
| "TokenType_value FUNC = ''FUNC''"
| "TokenType_value IF = ''IF''"
| "TokenType_value ELSE = ''ELSE''"
| "TokenType_value FOR = ''FOR''"
| "TokenType_value WHILE = ''WHILE''"
| "TokenType_value RETURN = ''RETURN''"
| "TokenType_value GORUN = ''GORUN''"
| "TokenType_value TRUE = ''TRUE''"
| "TokenType_value FALSE = ''FALSE''"
| "TokenType_value PLUS = ''PLUS''"
| "TokenType_value MINUS = ''MINUS''"
| "TokenType_value MULTIPLY = ''MULTIPLY''"
| "TokenType_value DIVIDE = ''DIVIDE''"
| "TokenType_value MODULO = ''MODULO''"
| "TokenType_value ASSIGN = ''ASSIGN''"
| "TokenType_value EQUAL = ''EQUAL''"
| "TokenType_value NOT_EQUAL = ''NOT_EQUAL''"
| "TokenType_value LESS_THAN = ''LESS_THAN''"
| "TokenType_value GREATER_THAN = ''GREATER_THAN''"
| "TokenType_value LESS_EQUAL = ''LESS_EQUAL''"
| "TokenType_value GREATER_EQUAL = ''GREATER_EQUAL''"
| "TokenType_value AND = ''AND''"
| "TokenType_value OR = ''OR''"
| "TokenType_value NOT = ''NOT''"
| "TokenType_value SEMICOLON = ''SEMICOLON''"
| "TokenType_value COMMA = ''COMMA''"
| "TokenType_value LEFT_PAREN = ''LEFT_PAREN''"
| "TokenType_value RIGHT_PAREN = ''RIGHT_PAREN''"
| "TokenType_value LEFT_BRACE = ''LEFT_BRACE''"
| "TokenType_value RIGHT_BRACE = ''RIGHT_BRACE''"
| "TokenType_value EOF = ''EOF''"
| "TokenType_value NEWLINE = ''NEWLINE''"
| "TokenType_value WHITESPACE = ''WHITESPACE''"

datatype Token =
  Token (tok_type: TokenType) (tok_value: string) (tok_line: nat) (tok_column: nat)

text \<open>
  The source text is a list of characters with code points below 256. The three
  predicates are Python's \<open>str.isdigit\<close>, \<open>str.isalpha\<close> and \<open>str.isalnum\<close> on
  that range: besides the ASCII digits, the superscripts 1, 2 and 3 are digits; besides
  the ASCII letters, the feminine and masculine ordinal indicators, the micro sign and
  the accented letters are alphabetic; the three vulgar fractions are numeric, hence
  alphanumeric.
\<close>

definition isdigit :: "char \<Rightarrow> bool" where
  "isdigit c =
     (let n = (of_char c :: nat) in (48 \<le> n \<and> n \<le> 57) \<or> n = 178 \<or> n = 179 \<or> n = 185)"

definition isalpha :: "char \<Rightarrow> bool" where
  "isalpha c =
     (let n = (of_char c :: nat) in
        (65 \<le> n \<and> n \<le> 90) \<or> (97 \<le> n \<and> n \<le> 122) \<or> n = 170 \<or> n = 181 \<or> n = 186
        \<or> (192 \<le> n \<and> n \<le> 214) \<or> (216 \<le> n \<and> n \<le> 246) \<or> 248 \<le> n)"

definition isalnum :: "char \<Rightarrow> bool" where
  "isalnum c =
     (let n = (of_char c :: nat) in isalpha c \<or> isdigit c \<or> n = 188 \<or> n = 189 \<or> n = 190)"

definition Lexer_keywords :: "string \<Rightarrow> TokenType option" where
  "Lexer_keywords =
     [''let'' \<mapsto> LET, ''func'' \<mapsto> FUNC, ''if'' \<mapsto> IF, ''else'' \<mapsto> ELSE, ''for'' \<mapsto> FOR,
      ''while'' \<mapsto> WHILE, ''return'' \<mapsto> RETURN, ''gorun'' \<mapsto> GORUN, ''true'' \<mapsto> TRUE,
      ''false'' \<mapsto> FALSE]"

definition operators :: "string \<Rightarrow> TokenType option" where
  "operators =
     [''+'' \<mapsto> PLUS, ''-'' \<mapsto> MINUS, ''*'' \<mapsto> MULTIPLY, ''/'' \<mapsto> DIVIDE, ''%'' \<mapsto> MODULO,
      ''='' \<mapsto> ASSIGN, ''=='' \<mapsto> EQUAL, ''!='' \<mapsto> NOT_EQUAL, ''<'' \<mapsto> LESS_THAN,
      ''>'' \<mapsto> GREATER_THAN, ''<='' \<mapsto> LESS_EQUAL, ''>='' \<mapsto> GREATER_EQUAL,
      ''&&'' \<mapsto> AND, ''||'' \<mapsto> OR, ''!'' \<mapsto> NOT]"

definition delimiters :: "string \<Rightarrow> TokenType option" where
  "delimiters =
     ['';'' \<mapsto> SEMICOLON, '','' \<mapsto> COMMA, ''('' \<mapsto> LEFT_PAREN, '')'' \<mapsto> RIGHT_PAREN,
      ''{'' \<mapsto> LEFT_BRACE, ''}'' \<mapsto> RIGHT_BRACE]"

record Lexer =
  source :: string
  pos :: nat
  line :: nat
  column :: nat
  tokens :: "Token list"

definition new_Lexer :: "string \<Rightarrow> Lexer" where
  "new_Lexer t = \<lparr>source = t, pos = 0, line = 1, column = 1, tokens = []\<rparr>"

definition current_char :: "Lexer \<Rightarrow> char option" where
  "current_char s = (if pos s \<ge> length (source s) then None else Some (source s ! pos s))"

definition peek_char :: "Lexer \<Rightarrow> nat \<Rightarrow> char option" where
  "peek_char s offset =
     (let peek_pos = pos s + offset in
      if peek_pos \<ge> length (source s) then None else Some (source s ! peek_pos))"

definition Lexer_advance :: "Lexer \<Rightarrow> Lexer" where
  "Lexer_advance s =
     (if pos s < length (source s) \<and> source s ! pos s = CHR 0x0A
      then s\<lparr>line := line s + 1, column := 1, pos := pos s + 1\<rparr>
      else s\<lparr>column := column s + 1, pos := pos s + 1\<rparr>)"

function skip_whitespace :: "Lexer \<Rightarrow> Lexer" where
  "skip_whitespace s =
     (case current_char s of
        Some c \<Rightarrow> if c \<in> set [CHR '' '', CHR 0x09, CHR 0x0D] then skip_whitespace (Lexer_advance s) else s
      | None \<Rightarrow> s)"
  by pat_completeness auto
termination
  by (relation "measure (\<lambda>s. length (source s) - pos s)")
     (auto simp add: current_char_def Lexer_advance_def split: if_splits)

declare skip_whitespace.simps [simp del]

function skip_comment_loop :: "Lexer \<Rightarrow> Lexer" where
  "skip_comment_loop s =
     (case current_char s of
        Some c \<Rightarrow> if c \<noteq> CHR 0x0A then skip_comment_loop (Lexer_advance s) else s
      | None \<Rightarrow> s)"
  by pat_completeness auto
termination
  by (relation "measure (\<lambda>s. length (source s) - pos s)")
     (auto simp add: current_char_def Lexer_advance_def split: if_splits)

declare skip_comment_loop.simps [simp del]

definition skip_comment :: "Lexer \<Rightarrow> Lexer" where
  "skip_comment s =
     (if current_char s = Some CHR ''/'' \<and> peek_char s 1 = Some CHR ''/''
      then skip_comment_loop s else s)"

function read_number_loop :: "Lexer \<Rightarrow> string \<Rightarrow> string \<times> Lexer" where
  "read_number_loop s number_str =
     (case current_char s of
        Some c \<Rightarrow>
          if isdigit c \<or> c = CHR ''.'' then read_number_loop (Lexer_advance s) (number_str @ [c])
          else (number_str, s)
      | None \<Rightarrow> (number_str, s))"
  by pat_completeness auto
termination
  by (relation "measure (\<lambda>(s, n). length (source s) - pos s)")
     (auto simp add: current_char_def Lexer_advance_def split: if_splits)

declare read_number_loop.simps [simp del]

definition read_number :: "Lexer \<Rightarrow> Token \<times> Lexer" where
  "read_number s =
     (case read_number_loop s [] of
        (number_str, s1) \<Rightarrow> (Token NUMBER number_str (line s) (column s), s1))"

definition escape_chars :: "char \<Rightarrow> char option" where
  "escape_chars =
     [CHR ''n'' \<mapsto> CHR 0x0A, CHR ''t'' \<mapsto> CHR 0x09, CHR ''r'' \<mapsto> CHR 0x0D,
      CHR 0x5C \<mapsto> CHR 0x5C, CHR 0x22 \<mapsto> CHR 0x22]"

text \<open>
  After a backslash the loop tests \<open>self.current_char() in 'ntr\\"'\<close>; at the end of
  the text \<open>current_char\<close> is None and the test raises TypeError.
\<close>

function read_string_loop :: "Lexer \<Rightarrow> string \<Rightarrow> pyexc + string \<times> Lexer" where
  "read_string_loop s string_v =
     (case current_char s of
        Some c \<Rightarrow>
          if c \<noteq> CHR 0x22 then
            (if c = CHR 0x5C then
               (let s1 = Lexer_advance s in
                case current_char s1 of
                  None \<Rightarrow> Inl TypeError
                | Some d \<Rightarrow>
                    if d \<in> set [CHR ''n'', CHR ''t'', CHR ''r'', CHR 0x5C, CHR 0x22]
                    then read_string_loop (Lexer_advance s1)
                           (string_v @ [case escape_chars d of Some x \<Rightarrow> x | None \<Rightarrow> d])
                    else read_string_loop (Lexer_advance s1) (string_v @ [d]))
             else read_string_loop (Lexer_advance s) (string_v @ [c]))
          else Inr (string_v, s)
      | None \<Rightarrow> Inr (string_v, s))"
  by pat_completeness auto
termination
  by (relation "measure (\<lambda>(s, n). length (source s) - pos s)")
     (auto simp add: current_char_def Lexer_advance_def Let_def split: if_splits)

declare read_string_loop.simps [simp del]

definition read_string :: "Lexer \<Rightarrow> pyexc + Token \<times> Lexer" where
  "read_string s =
     (case read_string_loop (Lexer_advance s) [] of
        Inl e \<Rightarrow> Inl e
      | Inr (string_v, s1) \<Rightarrow>
          Inr (Token STRING string_v (line s) (column s),
               if current_char s1 = Some CHR 0x22 then Lexer_advance s1 else s1))"

function read_identifier_loop :: "Lexer \<Rightarrow> string \<Rightarrow> string \<times> Lexer" where
  "read_identifier_loop s identifier =
     (case current_char s of
        Some c \<Rightarrow>
          if isalnum c \<or> c = CHR ''_'' then read_identifier_loop (Lexer_advance s) (identifier @ [c])
          else (identifier, s)
      | None \<Rightarrow> (identifier, s))"
  by pat_completeness auto
termination
  by (relation "measure (\<lambda>(s, n). length (source s) - pos s)")
     (auto simp add: current_char_def Lexer_advance_def split: if_splits)

declare read_identifier_loop.simps [simp del]

definition read_identifier :: "Lexer \<Rightarrow> Token \<times> Lexer" where
  "read_identifier s =
     (case read_identifier_loop s [] of
        (identifier, s1) \<Rightarrow>
          (let token_type = (case Lexer_keywords identifier of Some t \<Rightarrow> t | None \<Rightarrow> IDENTIFIER);
               token_type = (if token_type = TRUE \<or> token_type = FALSE then BOOLEAN else token_type)
           in (Token token_type identifier (line s) (column s), s1)))"

definition position_text :: "Lexer \<Rightarrow> string" where
  "position_text s = '' at line '' @ str_nat (line s) @ '', column '' @ str_nat (column s)"

text \<open>\<open>read_operator\<close> is called with a current character \<open>char\<close>.\<close>

definition read_operator :: "Lexer \<Rightarrow> char \<Rightarrow> pyexc + Token \<times> Lexer" where
  "read_operator s char =
     (let two_char = char # (case peek_char s 1 of Some d \<Rightarrow> [d] | None \<Rightarrow> []) in
      case operators two_char of
        Some t \<Rightarrow> Inr (Token t two_char (line s) (column s), Lexer_advance (Lexer_advance s))
      | None \<Rightarrow>
          (case operators [char] of
             Some t \<Rightarrow> Inr (Token t [char] (line s) (column s), Lexer_advance s)
           | None \<Rightarrow> Inl (SyntaxError (''Unknown operator: '' @ [char] @ position_text s))))"

definition emit :: "Token \<times> Lexer \<Rightarrow> Lexer" where
  "emit r = (case r of (t, s) \<Rightarrow> s\<lparr>tokens := tokens s @ [t]\<rparr>)"

function tokenize_loop :: "Lexer \<Rightarrow> pyexc + Lexer" where
  "tokenize_loop s0 =
     (if pos s0 < length (source s0) then
        (let s = skip_whitespace s0 in
         case current_char s of
           None \<Rightarrow> Inr s
         | Some char \<Rightarrow>
             if char = CHR ''/'' \<and> peek_char s 1 = Some CHR ''/'' then tokenize_loop (skip_comment s)
             else if char = CHR 0x0A then
               tokenize_loop (Lexer_advance (emit (Token NEWLINE [char] (line s) (column s), s)))
             else if isdigit char then tokenize_loop (emit (read_number s))
             else if char = CHR 0x22 then
               (case read_string s of Inl e \<Rightarrow> Inl e | Inr r \<Rightarrow> tokenize_loop (emit r))
             else if isalpha char \<or> char = CHR ''_'' then tokenize_loop (emit (read_identifier s))
             else if delimiters [char] \<noteq> None then
               tokenize_loop
                 (Lexer_advance (emit (Token (the (delimiters [char])) [char] (line s) (column s), s)))
             else if char \<in> set ''+-*/%=<>!&|'' then
               (case read_operator s char of Inl e \<Rightarrow> Inl e | Inr r \<Rightarrow> tokenize_loop (emit r))
             else Inl (SyntaxError (''Unexpected character: '' @ [char] @ position_text s)))
      else Inr s0)"
  by pat_completeness (simp only:)

termination tokenize_loop
proof -
  have adv: "source (Lexer_advance s) = source s \<and> pos (Lexer_advance s) = Suc (pos s)" for s
      by (simp add: Lexer_advance_def)
  have ws: "source (skip_whitespace s) = source s \<and> pos s \<le> pos (skip_whitespace s)" for s
      proof (induction s rule: skip_whitespace.induct)
        case (1 s)
        show ?case
        proof (cases "current_char s")
          case None
          then show ?thesis by (simp add: skip_whitespace.simps)
        next
          case (Some c)
          show ?thesis
          proof (cases "c \<in> set [CHR '' '', CHR 0x09, CHR 0x0D]")
            case True
            with Some 1 adv [of s] show ?thesis by (subst (1 2) skip_whitespace.simps) simp
          next
            case False
            with Some show ?thesis by (subst (1 2) skip_whitespace.simps) simp
          qed
        qed
      qed
  have rs: "read_string_loop s n = Inr (v, s1) \<Longrightarrow> source s1 = source s \<and> pos s \<le> pos s1" for s n v s1
  proof (induction s n rule: read_string_loop.induct)
    case (1 s n)
    show ?case
    proof (cases "current_char s")
      case None
      with "1.prems" show ?thesis by (simp add: read_string_loop.simps)
    next
      case (Some c)
      note cur = this
      show ?thesis
      proof (cases "c = CHR 0x22")
        case True
        with cur "1.prems" show ?thesis by (simp add: read_string_loop.simps)
      next
        case False
        note nq = this
        show ?thesis
        proof (cases "c = CHR 0x5C")
          case False
          with cur nq "1.prems" have "read_string_loop (Lexer_advance s) (n @ [c]) = Inr (v, s1)"
            by (subst (asm) read_string_loop.simps) simp
          from "1.IH"(3) [OF cur nq False this] adv [of s] show ?thesis by simp
        next
          case True
          note bs = this
          show ?thesis
          proof (cases "current_char (Lexer_advance s)")
            case None
            with cur nq bs "1.prems" show ?thesis
              by (subst (asm) read_string_loop.simps) (simp add: Let_def)
          next
            case (Some d)
            note nxt = this
            show ?thesis
            proof (cases "d \<in> set [CHR ''n'', CHR ''t'', CHR ''r'', CHR 0x5C, CHR 0x22]")
              case True
              with cur nq bs nxt "1.prems"
              have "read_string_loop (Lexer_advance (Lexer_advance s))
                      (n @ [case escape_chars d of Some x \<Rightarrow> x | None \<Rightarrow> d]) = Inr (v, s1)"
                by (subst (asm) read_string_loop.simps) (simp add: Let_def)
              from "1.IH"(1) [OF cur nq bs refl nxt True this] adv [of s] adv [of "Lexer_advance s"]
              show ?thesis by simp
            next
              case False
              with cur nq bs nxt "1.prems"
              have "read_string_loop (Lexer_advance (Lexer_advance s)) (n @ [d]) = Inr (v, s1)"
                by (subst (asm) read_string_loop.simps) (simp add: Let_def)
              from "1.IH"(2) [OF cur nq bs refl nxt False this] adv [of s] adv [of "Lexer_advance s"]
              show ?thesis by simp
            qed
          qed
        qed
      qed
    qed
  qed
  have cl: "source (skip_comment_loop s) = source s \<and> pos s \<le> pos (skip_comment_loop s)" for s
      proof (induction s rule: skip_comment_loop.induct)
        case (1 s)
        show ?case
        proof (cases "current_char s")
          case None
          then show ?thesis by (simp add: skip_comment_loop.simps)
        next
          case (Some c)
          show ?thesis
          proof (cases "c \<noteq> CHR 0x0A")
            case True
            with Some 1 adv [of s] show ?thesis by (subst (1 2) skip_comment_loop.simps) simp
          next
            case False
            with Some show ?thesis by (subst (1 2) skip_comment_loop.simps) simp
          qed
        qed
      qed
  have rn: "source (snd (read_number_loop s n)) = source s \<and> pos s \<le> pos (snd (read_number_loop s n))" for s n
      proof (induction s n rule: read_number_loop.induct)
        case (1 s n)
        show ?case
        proof (cases "current_char s")
          case None
          then show ?thesis by (simp add: read_number_loop.simps)
        next
          case (Some c)
          show ?thesis
          proof (cases "isdigit c \<or> c = CHR ''.''")
            case True
            with Some 1 adv [of s] show ?thesis by (subst (1 2) read_number_loop.simps) simp
          next
            case False
            with Some show ?thesis by (subst (1 2) read_number_loop.simps) simp
          qed
        qed
      qed
  have ri: "source (snd (read_identifier_loop s n)) = source s
              \<and> pos s \<le> pos (snd (read_identifier_loop s n))" for s n
      proof (induction s n rule: read_identifier_loop.induct)
        case (1 s n)
        show ?case
        proof (cases "current_char s")
          case None
          then show ?thesis by (simp add: read_identifier_loop.simps)
        next
          case (Some c)
          show ?thesis
          proof (cases "isalnum c \<or> c = CHR ''_''")
            case True
            with Some 1 adv [of s] show ?thesis by (subst (1 2) read_identifier_loop.simps) simp
          next
            case False
            with Some show ?thesis by (subst (1 2) read_identifier_loop.simps) simp
          qed
        qed
      qed
  have cur_lt: "current_char s = Some c \<Longrightarrow> pos s < length (source s)" for s c
    by (simp add: current_char_def split: if_splits)
  have emit_sp: "source (emit (t, s)) = source s \<and> pos (emit (t, s)) = pos s" for t s
    by (simp add: emit_def)
  have p_comment: "current_char s = Some CHR ''/'' \<Longrightarrow> peek_char s 1 = Some CHR ''/'' \<Longrightarrow>
     source (skip_comment s) = source s \<and> pos s < pos (skip_comment s)" for s
    using cl [of "Lexer_advance s"] adv [of s]
    by (simp add: skip_comment_def skip_comment_loop.simps [of s])
  have p_number: "current_char s = Some c \<Longrightarrow> isdigit c \<Longrightarrow>
     source (emit (read_number s)) = source s \<and> pos s < pos (emit (read_number s))" for s c
    using rn [of "Lexer_advance s" "[c]"] adv [of s]
    by (auto simp add: read_number_def read_number_loop.simps [of s] emit_def split: prod.splits)
  have p_identifier: "current_char s = Some c \<Longrightarrow> isalpha c \<or> c = CHR ''_'' \<Longrightarrow>
     source (emit (read_identifier s)) = source s \<and> pos s < pos (emit (read_identifier s))" for s c
    using ri [of "Lexer_advance s" "[c]"] adv [of s]
    by (auto simp add: read_identifier_def read_identifier_loop.simps [of s] emit_def isalnum_def Let_def
          split: prod.splits)
  have p_string: "read_string s = Inr r \<Longrightarrow> source (emit r) = source s \<and> pos s < pos (emit r)" for s r
    using adv [of s]
    by (auto simp add: read_string_def emit_def adv split: sum.splits prod.splits if_splits dest!: rs)
  have p_operator: "read_operator s c = Inr r \<Longrightarrow> source (emit r) = source s \<and> pos s < pos (emit r)" for s c r
    using adv [of s] adv [of "Lexer_advance s"]
    by (auto simp add: read_operator_def emit_def Let_def split: option.splits)
  show ?thesis
  proof (relation "measure (\<lambda>s. length (source s) - pos s)")
    show "wf (measure (\<lambda>s. length (source s) - pos s))" by simp
  next
    fix s0 x x2
    assume "pos s0 < length (source s0)" "x = skip_whitespace s0" "current_char x = Some x2"
      "x2 = CHR ''/'' \<and> peek_char x 1 = Some CHR ''/''"
    then show "(skip_comment x, s0) \<in> measure (\<lambda>s. length (source s) - pos s)"
      using ws [of s0] p_comment [of x] cur_lt [of x x2] by (simp; arith)
  next
    fix s0 x x2
    assume "pos s0 < length (source s0)" "x = skip_whitespace s0" "current_char x = Some x2"
    then show "(Lexer_advance (emit (Token NEWLINE [x2] (line x) (column x), x)), s0)
        \<in> measure (\<lambda>s. length (source s) - pos s)"
      using ws [of s0] cur_lt [of x x2] adv [of "emit (Token NEWLINE [x2] (line x) (column x), x)"]
        emit_sp [of "Token NEWLINE [x2] (line x) (column x)" x] by (simp; arith)
  next
    fix s0 x x2
    assume "pos s0 < length (source s0)" "x = skip_whitespace s0" "current_char x = Some x2" "isdigit x2"
    then show "(emit (read_number x), s0) \<in> measure (\<lambda>s. length (source s) - pos s)"
      using ws [of s0] cur_lt [of x x2] p_number [of x x2] by (simp; arith)
  next
    fix s0 x x2 b
    assume "pos s0 < length (source s0)" "x = skip_whitespace s0" "current_char x = Some x2"
      "read_string x = Inr b"
    then show "(emit b, s0) \<in> measure (\<lambda>s. length (source s) - pos s)"
      using ws [of s0] cur_lt [of x x2] p_string [of x b] by (simp; arith)
  next
    fix s0 x x2
    assume "pos s0 < length (source s0)" "x = skip_whitespace s0" "current_char x = Some x2"
      "isalpha x2 \<or> x2 = CHR ''_''"
    then show "(emit (read_identifier x), s0) \<in> measure (\<lambda>s. length (source s) - pos s)"
      using ws [of s0] cur_lt [of x x2] p_identifier [of x x2] by (simp; arith)
  next
    fix s0 x x2
    assume "pos s0 < length (source s0)" "x = skip_whitespace s0" "current_char x = Some x2"
    then show "(Lexer_advance (emit (Token (the (delimiters [x2])) [x2] (line x) (column x), x)), s0)
        \<in> measure (\<lambda>s. length (source s) - pos s)"
      using ws [of s0] cur_lt [of x x2]
        adv [of "emit (Token (the (delimiters [x2])) [x2] (line x) (column x), x)"]
        emit_sp [of "Token (the (delimiters [x2])) [x2] (line x) (column x)" x] by (simp; arith)
  next
    fix s0 x x2 b
    assume "pos s0 < length (source s0)" "x = skip_whitespace s0" "current_char x = Some x2"
      "read_operator x x2 = Inr b"
    then show "(emit b, s0) \<in> measure (\<lambda>s. length (source s) - pos s)"
      using ws [of s0] cur_lt [of x x2] p_operator [of x x2 b] by (simp; arith)
  qed
qed

declare tokenize_loop.simps [simp del]

definition tokenize :: "string \<Rightarrow> pyexc + Token list" where
  "tokenize t =
     (case tokenize_loop (new_Lexer t) of
        Inl e \<Rightarrow> Inl e
      | Inr s \<Rightarrow> Inr (tokens s @ [Token EOF [] (line s) (column s)]))"

section \<open>Python's int() and float() on a str\<close>

text \<open>
  \<open>int(s)\<close> and \<open>float(s)\<close> strip white space, then accept an optional sign and
  decimal digits in which single underscores may stand between digits; \<open>float\<close> also
  accepts one point, an exponent, and the names inf, infinity and nan in any case.
  Anything else raises ValueError. In the range of code points below 256 the decimal
  digits are the ASCII digits. The value of an accepted float literal is the host's.
\<close>

definition isspace :: "char \<Rightarrow> bool" where
  "isspace c =
     (let n = (of_char c :: nat) in (9 \<le> n \<and> n \<le> 13) \<or> (28 \<le> n \<and> n \<le> 32) \<or> n = 133 \<or> n = 160)"

definition strip :: "string \<Rightarrow> string" where
  "strip s = rev (dropWhile isspace (rev (dropWhile isspace s)))"

definition isdecimal :: "char \<Rightarrow> bool" where
  "isdecimal c = (let n = (of_char c :: nat) in 48 \<le> n \<and> n \<le> 57)"

fun digits_rest :: "string \<Rightarrow> bool" where
  "digits_rest [] = True"
| "digits_rest [c] = isdecimal c"
| "digits_rest (c # d # cs) =
     (if c = CHR ''_'' then isdecimal d \<and> digits_rest cs else isdecimal c \<and> digits_rest (d # cs))"

definition digitpart :: "string \<Rightarrow> bool" where
  "digitpart s = (case s of [] \<Rightarrow> False | c # cs \<Rightarrow> isdecimal c \<and> digits_rest cs)"

definition digits_value :: "string \<Rightarrow> int" where
  "digits_value s =
     foldl (\<lambda>acc c. 10 * acc + (int (of_char c) - 48)) 0 (filter (\<lambda>c. c \<noteq> CHR ''_'') s)"

definition unsigned :: "string \<Rightarrow> string" where
  "unsigned s = (case s of c # cs \<Rightarrow> if c = CHR ''+'' \<or> c = CHR ''-'' then cs else s | [] \<Rightarrow> s)"

definition py_int :: "string \<Rightarrow> pyexc + int" where
  "py_int s =
     (let t = strip s; body = unsigned t in
      if digitpart body
      then Inr (if t \<noteq> [] \<and> hd t = CHR ''-'' then - digits_value body else digits_value body)
      else Inl ValueError)"

definition lower :: "string \<Rightarrow> string" where
  "lower s =
     map (\<lambda>c. let n = (of_char c :: nat) in if 65 \<le> n \<and> n \<le> 90 then char_of (n + 32) else c) s"

definition number_syntax :: "string \<Rightarrow> bool" where
  "number_syntax s =
     (let a = takeWhile (\<lambda>c. c \<noteq> CHR ''.'') s; b = dropWhile (\<lambda>c. c \<noteq> CHR ''.'') s in
      case b of
        [] \<Rightarrow> digitpart a
      | dot # frac \<Rightarrow> (a = [] \<and> digitpart frac) \<or> (digitpart a \<and> (frac = [] \<or> digitpart frac)))"

definition float_syntax :: "string \<Rightarrow> bool" where
  "float_syntax s =
     (let body = unsigned s;
          is_e = (\<lambda>c. c = CHR ''e'' \<or> c = CHR ''E'');
          mantissa = takeWhile (\<lambda>c. \<not> is_e c) body;
          rest = dropWhile (\<lambda>c. \<not> is_e c) body
      in lower body \<in> set [''inf'', ''infinity'', ''nan'']
         \<or> (number_syntax mantissa
            \<and> (case rest of [] \<Rightarrow> True | e # expo \<Rightarrow> digitpart (unsigned expo))))"

definition py_float :: "host \<Rightarrow> string \<Rightarrow> pyexc + pyfloat" where
  "py_float h s = (if float_syntax (strip s) then Inr (float_of_str h s) else Inl ValueError)"

section \<open>The parser (parser.py)\<close>

record Parser =
  ptokens :: "Token list"
  current :: nat

text \<open>
  A method of the parser returns a result or raises, and leaves the parser in a state:
  \<open>synchronize\<close> runs on the state an error left. A run that needs more than the given
  number of nested calls has the result \<open>None\<close>.
\<close>

type_synonym 'a step = "(pyexc + 'a) \<times> Parser"

type_synonym 'a parsing = "'a step option"

definition new_Parser :: "Token list \<Rightarrow> Parser" where
  "new_Parser toks =
     \<lparr>ptokens = filter (\<lambda>t. tok_type t \<notin> set [WHITESPACE, NEWLINE]) toks, current = 0\<rparr>"

definition sbind :: "'a step \<Rightarrow> ('a \<Rightarrow> Parser \<Rightarrow> 'b step) \<Rightarrow> 'b step" where
  "sbind m f = (case m of (Inl e, p) \<Rightarrow> (Inl e, p) | (Inr a, p) \<Rightarrow> f a p)"

definition pbind :: "'a parsing \<Rightarrow> ('a \<Rightarrow> Parser \<Rightarrow> 'b parsing) \<Rightarrow> 'b parsing" where
  "pbind m f =
     (case m of None \<Rightarrow> None | Some (Inl e, p) \<Rightarrow> Some (Inl e, p) | Some (Inr a, p) \<Rightarrow> f a p)"

text \<open>\<open>self.tokens[self.current]\<close>: IndexError beyond the last token.\<close>

definition peek :: "Parser \<Rightarrow> Token step" where
  "peek p =
     (if current p < length (ptokens p) then (Inr (ptokens p ! current p), p)
      else (Inl IndexError, p))"

text \<open>\<open>self.tokens[self.current - 1]\<close>: the index \<open>-1\<close> is the last token.\<close>

definition previous :: "Parser \<Rightarrow> Token step" where
  "previous p =
     (if current p = 0 then
        (if ptokens p = [] then (Inl IndexError, p) else (Inr (last (ptokens p)), p))
      else if current p - 1 < length (ptokens p) then (Inr (ptokens p ! (current p - 1)), p)
      else (Inl IndexError, p))"

definition is_at_end :: "Parser \<Rightarrow> bool step" where
  "is_at_end p = sbind (peek p) (\<lambda>t p1. (Inr (tok_type t = EOF), p1))"

definition Parser_advance :: "Parser \<Rightarrow> Token step" where
  "Parser_advance p =
     sbind (is_at_end p) (\<lambda>at_end p1.
       previous (if \<not> at_end then p1\<lparr>current := current p1 + 1\<rparr> else p1))"

definition check :: "Parser \<Rightarrow> TokenType \<Rightarrow> bool step" where
  "check p token_type =
     sbind (is_at_end p) (\<lambda>at_end p1.
       if at_end then (Inr False, p1)
       else sbind (peek p1) (\<lambda>t p2. (Inr (tok_type t = token_type), p2)))"

fun match :: "Parser \<Rightarrow> TokenType list \<Rightarrow> bool step" where
  "match p [] = (Inr False, p)"
| "match p (token_type # token_types) =
     (case check p token_type of
        (Inl e, p1) \<Rightarrow> (Inl e, p1)
      | (Inr True, p1) \<Rightarrow> sbind (Parser_advance p1) (\<lambda>t p2. (Inr True, p2))
      | (Inr False, p1) \<Rightarrow> match p token_types)"

definition consume :: "Parser \<Rightarrow> TokenType \<Rightarrow> string \<Rightarrow> Token step" where
  "consume p token_type message =
     sbind (check p token_type) (\<lambda>c p1.
       if c then Parser_advance p1
       else sbind (peek p1) (\<lambda>current_token p2.
         (Inl (ParseError (message @ ''. Got '' @ TokenType_value (tok_type current_token)
                 @ '' at line '' @ str_nat (tok_line current_token))), p2)))"

text \<open>The loop of \<open>synchronize\<close>, after its first \<open>advance\<close>.\<close>

function synchronize_loop :: "Parser \<Rightarrow> unit step" where
  "synchronize_loop p =
     (case is_at_end p of
        (Inl e, p1) \<Rightarrow> (Inl e, p1)
      | (Inr True, p1) \<Rightarrow> (Inr (), p1)
      | (Inr False, p1) \<Rightarrow>
          (case previous p of
             (Inl e, p2) \<Rightarrow> (Inl e, p2)
           | (Inr prev, p2) \<Rightarrow>
               if tok_type prev = SEMICOLON then (Inr (), p)
               else
                 (case peek p of
                    (Inl e, p3) \<Rightarrow> (Inl e, p3)
                  | (Inr t, p3) \<Rightarrow>
                      if tok_type t \<in> set [FUNC, LET, FOR, IF, WHILE, GORUN, RETURN] then (Inr (), p)
                      else
                        (case Parser_advance p of
                           (Inl e, p4) \<Rightarrow> (Inl e, p4)
                         | (Inr a, p4) \<Rightarrow> synchronize_loop p4))))"
  by pat_completeness (simp only:)
termination
  by (relation "measure (\<lambda>p. length (ptokens p) - current p)")
     (auto simp add: Parser_advance_def is_at_end_def peek_def previous_def sbind_def
        split: if_splits)

declare synchronize_loop.simps [simp del]

definition synchronize :: "Parser \<Rightarrow> unit step" where
  "synchronize p = sbind (Parser_advance p) (\<lambda>t p1. synchronize_loop p1)"

definition unexpected_token :: "Token \<Rightarrow> pyexc" where
  "unexpected_token t =
     ParseError (''Unexpected token '' @ TokenType_value (tok_type t) @ '' at line ''
                 @ str_nat (tok_line t))"

text \<open>
  The methods of the grammar. The loops of the source are the functions named \<open>_loop\<close>;
  \<open>block_statement\<close> returns the statements of the BlockStatement it has read.
\<close>

function (sequential) parse_loop :: "host \<Rightarrow> nat \<Rightarrow> Statement list \<Rightarrow> Parser \<Rightarrow> (Statement list) parsing"
  and Parser_declaration :: "host \<Rightarrow> nat \<Rightarrow> Parser \<Rightarrow> Statement parsing"
  and function_declaration :: "host \<Rightarrow> nat \<Rightarrow> Parser \<Rightarrow> Statement parsing"
  and parameters_loop :: "host \<Rightarrow> nat \<Rightarrow> string list \<Rightarrow> Parser \<Rightarrow> (string list) parsing"
  and variable_declaration :: "host \<Rightarrow> nat \<Rightarrow> Parser \<Rightarrow> Statement parsing"
  and statement :: "host \<Rightarrow> nat \<Rightarrow> Parser \<Rightarrow> Statement parsing"
  and gorun_statement :: "host \<Rightarrow> nat \<Rightarrow> Parser \<Rightarrow> Statement parsing"
  and return_statement :: "host \<Rightarrow> nat \<Rightarrow> Parser \<Rightarrow> Statement parsing"
  and if_statement :: "host \<Rightarrow> nat \<Rightarrow> Parser \<Rightarrow> Statement parsing"
  and for_statement :: "host \<Rightarrow> nat \<Rightarrow> Parser \<Rightarrow> Statement parsing"
  and while_statement :: "host \<Rightarrow> nat \<Rightarrow> Parser \<Rightarrow> Statement parsing"
  and block_statement :: "host \<Rightarrow> nat \<Rightarrow> Parser \<Rightarrow> (Statement list) parsing"
  and block_loop :: "host \<Rightarrow> nat \<Rightarrow> Statement list \<Rightarrow> Parser \<Rightarrow> (Statement list) parsing"
  and expression_statement :: "host \<Rightarrow> nat \<Rightarrow> Parser \<Rightarrow> Statement parsing"
  and expression :: "host \<Rightarrow> nat \<Rightarrow> Parser \<Rightarrow> Expression parsing"
  and assignment :: "host \<Rightarrow> nat \<Rightarrow> Parser \<Rightarrow> Expression parsing"
  and logical_or :: "host \<Rightarrow> nat \<Rightarrow> Parser \<Rightarrow> Expression parsing"
  and logical_or_loop :: "host \<Rightarrow> nat \<Rightarrow> Expression \<Rightarrow> Parser \<Rightarrow> Expression parsing"
  and logical_and :: "host \<Rightarrow> nat \<Rightarrow> Parser \<Rightarrow> Expression parsing"
  and logical_and_loop :: "host \<Rightarrow> nat \<Rightarrow> Expression \<Rightarrow> Parser \<Rightarrow> Expression parsing"
  and equality :: "host \<Rightarrow> nat \<Rightarrow> Parser \<Rightarrow> Expression parsing"
  and equality_loop :: "host \<Rightarrow> nat \<Rightarrow> Expression \<Rightarrow> Parser \<Rightarrow> Expression parsing"
  and comparison :: "host \<Rightarrow> nat \<Rightarrow> Parser \<Rightarrow> Expression parsing"
  and comparison_loop :: "host \<Rightarrow> nat \<Rightarrow> Expression \<Rightarrow> Parser \<Rightarrow> Expression parsing"
  and Parser_term :: "host \<Rightarrow> nat \<Rightarrow> Parser \<Rightarrow> Expression parsing"
  and Parser_term_loop :: "host \<Rightarrow> nat \<Rightarrow> Expression \<Rightarrow> Parser \<Rightarrow> Expression parsing"
  and factor :: "host \<Rightarrow> nat \<Rightarrow> Parser \<Rightarrow> Expression parsing"
  and factor_loop :: "host \<Rightarrow> nat \<Rightarrow> Expression \<Rightarrow> Parser \<Rightarrow> Expression parsing"
  and unary :: "host \<Rightarrow> nat \<Rightarrow> Parser \<Rightarrow> Expression parsing"
  and call :: "host \<Rightarrow> nat \<Rightarrow> Parser \<Rightarrow> Expression parsing"
  and call_loop :: "host \<Rightarrow> nat \<Rightarrow> Expression \<Rightarrow> Parser \<Rightarrow> Expression parsing"
  and finish_call :: "host \<Rightarrow> nat \<Rightarrow> Expression \<Rightarrow> Parser \<Rightarrow> Expression parsing"
  and arguments_loop :: "host \<Rightarrow> nat \<Rightarrow> Expression list \<Rightarrow> Parser \<Rightarrow> (Expression list) parsing"
  and primary :: "host \<Rightarrow> nat \<Rightarrow> Parser \<Rightarrow> Expression parsing"
where
  "parse_loop h 0 statements p = None"
| "parse_loop h (Suc n) statements p =
     pbind (Some (is_at_end p)) (\<lambda>at_end p1.
       if at_end then Some (Inr statements, p1)
       else pbind (Parser_declaration h n p1) (\<lambda>stmt p2. parse_loop h n (statements @ [stmt]) p2))"
|   "Parser_declaration h 0 p = None"
| "Parser_declaration h (Suc n) p =
     (case
        pbind (Some (match p [FUNC])) (\<lambda>m p1.
          if m then function_declaration h n p1
          else pbind (Some (match p1 [LET])) (\<lambda>m2 p2.
            if m2 then variable_declaration h n p2 else statement h n p2))
      of
        None \<Rightarrow> None
      | Some (Inl e, p3) \<Rightarrow>
          (case e of
             ParseError msg \<Rightarrow>
               (case synchronize p3 of
                  (Inl e2, p4) \<Rightarrow> Some (Inl e2, p4)
                | (Inr u, p4) \<Rightarrow> Some (Inl e, p4))
           | _ \<Rightarrow> Some (Inl e, p3))
      | Some (Inr stmt, p3) \<Rightarrow> Some (Inr stmt, p3))"
|   "function_declaration h 0 p = None"
| "function_declaration h (Suc n) p =
     pbind (Some (consume p IDENTIFIER ''Expected function name'')) (\<lambda>name p1.
     pbind (Some (consume p1 LEFT_PAREN (''Expected '' @ [CHR 0x27] @ ''('' @ [CHR 0x27] @ '' after function name''))) (\<lambda>t1 p2.
     pbind (Some (check p2 RIGHT_PAREN)) (\<lambda>c p3.
     pbind
       (if \<not> c then
          pbind (Some (consume p3 IDENTIFIER ''Expected parameter name'')) (\<lambda>param p4.
            parameters_loop h n [tok_value param] p4)
        else Some (Inr [], p3))
       (\<lambda>parameters p5.
     pbind (Some (consume p5 RIGHT_PAREN (''Expected '' @ [CHR 0x27] @ '')'' @ [CHR 0x27] @ '' after parameters''))) (\<lambda>t2 p6.
     pbind (Some (consume p6 LEFT_BRACE (''Expected '' @ [CHR 0x27] @ ''{'' @ [CHR 0x27] @ '' before function body''))) (\<lambda>t3 p7.
     pbind (block_statement h n p7) (\<lambda>body p8.
       Some (Inr (FunctionDeclaration (tok_value name) parameters body), p8))))))))"
|   "parameters_loop h 0 parameters p = None"
| "parameters_loop h (Suc n) parameters p =
     pbind (Some (match p [COMMA])) (\<lambda>m p1.
       if m then
         pbind (Some (consume p1 IDENTIFIER ''Expected parameter name'')) (\<lambda>param p2.
           parameters_loop h n (parameters @ [tok_value param]) p2)
       else Some (Inr parameters, p1))"
|   "variable_declaration h 0 p = None"
| "variable_declaration h (Suc n) p =
     pbind (Some (consume p IDENTIFIER ''Expected variable name'')) (\<lambda>name p1.
     pbind (Some (match p1 [ASSIGN])) (\<lambda>m p2.
     pbind
       (if m then pbind (expression h n p2) (\<lambda>e p3. Some (Inr (Some e), p3))
        else Some (Inr None, p2))
       (\<lambda>initializer p4.
     pbind (Some (consume p4 SEMICOLON (''Expected '' @ [CHR 0x27] @ '';'' @ [CHR 0x27] @ '' after variable declaration''))) (\<lambda>t p5.
       Some (Inr (VariableDeclaration (tok_value name) initializer), p5)))))"
|   "statement h 0 p = None"
| "statement h (Suc n) p =
     pbind (Some (match p [GORUN])) (\<lambda>m1 p1.
     if m1 then gorun_statement h n p1 else
     pbind (Some (match p1 [RETURN])) (\<lambda>m2 p2.
     if m2 then return_statement h n p2 else
     pbind (Some (match p2 [IF])) (\<lambda>m3 p3.
     if m3 then if_statement h n p3 else
     pbind (Some (match p3 [FOR])) (\<lambda>m4 p4.
     if m4 then for_statement h n p4 else
     pbind (Some (match p4 [WHILE])) (\<lambda>m5 p5.
     if m5 then while_statement h n p5 else
     pbind (Some (match p5 [LEFT_BRACE])) (\<lambda>m6 p6.
     if m6 then pbind (block_statement h n p6) (\<lambda>body p7. Some (Inr (BlockStatement body), p7))
     else expression_statement h n p6))))))"
|   "gorun_statement h 0 p = None"
| "gorun_statement h (Suc n) p =
     pbind (Some (consume p LEFT_PAREN (''Expected '' @ [CHR 0x27] @ ''('' @ [CHR 0x27] @ '' after '' @ [CHR 0x27] @ ''gorun'' @ [CHR 0x27]))) (\<lambda>t1 p1.
     pbind (expression h n p1) (\<lambda>expr p2.
     pbind (Some (consume p2 RIGHT_PAREN (''Expected '' @ [CHR 0x27] @ '')'' @ [CHR 0x27] @ '' after gorun expression''))) (\<lambda>t2 p3.
     pbind (Some (consume p3 SEMICOLON (''Expected '' @ [CHR 0x27] @ '';'' @ [CHR 0x27] @ '' after gorun statement''))) (\<lambda>t3 p4.
       Some (Inr (GorunStatement expr), p4)))))"
|   "return_statement h 0 p = None"
| "return_statement h (Suc n) p =
     pbind (Some (check p SEMICOLON)) (\<lambda>c p1.
     pbind
       (if \<not> c then pbind (expression h n p1) (\<lambda>e p2. Some (Inr (Some e), p2))
        else Some (Inr None, p1))
       (\<lambda>v p3.
     pbind (Some (consume p3 SEMICOLON (''Expected '' @ [CHR 0x27] @ '';'' @ [CHR 0x27] @ '' after return statement''))) (\<lambda>t p4.
       Some (Inr (ReturnStatement v), p4))))"
|   "if_statement h 0 p = None"
| "if_statement h (Suc n) p =
     pbind (Some (consume p LEFT_PAREN (''Expected '' @ [CHR 0x27] @ ''('' @ [CHR 0x27] @ '' after '' @ [CHR 0x27] @ ''if'' @ [CHR 0x27]))) (\<lambda>t1 p1.
     pbind (expression h n p1) (\<lambda>condition p2.
     pbind (Some (consume p2 RIGHT_PAREN (''Expected '' @ [CHR 0x27] @ '')'' @ [CHR 0x27] @ '' after if condition''))) (\<lambda>t2 p3.
     pbind (statement h n p3) (\<lambda>then_branch p4.
     pbind (Some (match p4 [ELSE])) (\<lambda>m p5.
     pbind
       (if m then pbind (statement h n p5) (\<lambda>st p6. Some (Inr (Some st), p6))
        else Some (Inr None, p5))
       (\<lambda>else_branch p7.
       Some (Inr (IfStatement condition then_branch else_branch), p7)))))))"
|   "for_statement h 0 p = None"
| "for_statement h (Suc n) p =
     pbind (Some (consume p LEFT_PAREN (''Expected '' @ [CHR 0x27] @ ''('' @ [CHR 0x27] @ '' after '' @ [CHR 0x27] @ ''for'' @ [CHR 0x27]))) (\<lambda>t1 p1.
     pbind (Some (match p1 [SEMICOLON])) (\<lambda>m1 p2.
     pbind
       (if m1 then Some (Inr None, p2)
        else pbind (Some (match p2 [LET])) (\<lambda>m2 p3.
          if m2 then pbind (variable_declaration h n p3) (\<lambda>st p4. Some (Inr (Some st), p4))
          else pbind (expression_statement h n p3) (\<lambda>st p4. Some (Inr (Some st), p4))))
       (\<lambda>initializer p5.
     pbind (Some (check p5 SEMICOLON)) (\<lambda>c1 p6.
     pbind
       (if \<not> c1 then pbind (expression h n p6) (\<lambda>e p7. Some (Inr (Some e), p7))
        else Some (Inr None, p6))
       (\<lambda>condition p8.
     pbind (Some (consume p8 SEMICOLON (''Expected '' @ [CHR 0x27] @ '';'' @ [CHR 0x27] @ '' after for loop condition''))) (\<lambda>t2 p9.
     pbind (Some (check p9 RIGHT_PAREN)) (\<lambda>c2 p10.
     pbind
       (if \<not> c2 then pbind (expression h n p10) (\<lambda>e p11. Some (Inr (Some e), p11))
        else Some (Inr None, p10))
       (\<lambda>increment p12.
     pbind (Some (consume p12 RIGHT_PAREN (''Expected '' @ [CHR 0x27] @ '')'' @ [CHR 0x27] @ '' after for clauses''))) (\<lambda>t3 p13.
     pbind (statement h n p13) (\<lambda>body p14.
       Some (Inr (ForStatement initializer condition increment body), p14)))))))))))"
|   "while_statement h 0 p = None"
| "while_statement h (Suc n) p =
     pbind (Some (consume p LEFT_PAREN (''Expected '' @ [CHR 0x27] @ ''('' @ [CHR 0x27] @ '' after '' @ [CHR 0x27] @ ''while'' @ [CHR 0x27]))) (\<lambda>t1 p1.
     pbind (expression h n p1) (\<lambda>condition p2.
     pbind (Some (consume p2 RIGHT_PAREN (''Expected '' @ [CHR 0x27] @ '')'' @ [CHR 0x27] @ '' after while condition''))) (\<lambda>t2 p3.
     pbind (statement h n p3) (\<lambda>body p4.
       Some (Inr (WhileStatement condition body), p4)))))"
|   "block_statement h 0 p = None"
| "block_statement h (Suc n) p =
     pbind (block_loop h n [] p) (\<lambda>statements p1.
     pbind (Some (consume p1 RIGHT_BRACE (''Expected '' @ [CHR 0x27] @ ''}'' @ [CHR 0x27] @ '' after block''))) (\<lambda>t p2.
       Some (Inr statements, p2)))"
|   "block_loop h 0 statements p = None"
| "block_loop h (Suc n) statements p =
     pbind (Some (check p RIGHT_BRACE)) (\<lambda>c p1.
       if c then Some (Inr statements, p1)
       else pbind (Some (is_at_end p1)) (\<lambda>at_end p2.
         if at_end then Some (Inr statements, p2)
         else pbind (Parser_declaration h n p2) (\<lambda>stmt p3.
           block_loop h n (statements @ [stmt]) p3)))"
|   "expression_statement h 0 p = None"
| "expression_statement h (Suc n) p =
     pbind (expression h n p) (\<lambda>expr p1.
     pbind (Some (consume p1 SEMICOLON (''Expected '' @ [CHR 0x27] @ '';'' @ [CHR 0x27] @ '' after expression''))) (\<lambda>t p2.
       Some (Inr (ExpressionStatement expr), p2)))"
|   "expression h 0 p = None"
| "expression h (Suc n) p =
     assignment h n p"
|   "assignment h 0 p = None"
| "assignment h (Suc n) p =
     pbind (logical_or h n p) (\<lambda>expr p1.
     pbind (Some (match p1 [ASSIGN])) (\<lambda>m p2.
       if m then
         pbind (assignment h n p2) (\<lambda>v p3.
           (case expr of
              IdentifierExpression name \<Rightarrow> Some (Inr (AssignmentExpression name v), p3)
            | _ \<Rightarrow> Some (Inl (ParseError ''Invalid assignment target''), p3)))
       else Some (Inr expr, p2)))"
|   "logical_or h 0 p = None"
| "logical_or h (Suc n) p =
     pbind (logical_and h n p) (\<lambda>expr p1. logical_or_loop h n expr p1)"
|   "logical_or_loop h 0 expr p = None"
| "logical_or_loop h (Suc n) expr p =
     pbind (Some (match p [OR])) (\<lambda>m p1.
       if m then
         pbind (Some (previous p1)) (\<lambda>operator p2.
         pbind (logical_and h n p2) (\<lambda>right p3.
           logical_or_loop h n (BinaryExpression expr (tok_value operator) right) p3))
       else Some (Inr expr, p1))"
|   "logical_and h 0 p = None"
| "logical_and h (Suc n) p =
     pbind (equality h n p) (\<lambda>expr p1. logical_and_loop h n expr p1)"
|   "logical_and_loop h 0 expr p = None"
| "logical_and_loop h (Suc n) expr p =
     pbind (Some (match p [AND])) (\<lambda>m p1.
       if m then
         pbind (Some (previous p1)) (\<lambda>operator p2.
         pbind (equality h n p2) (\<lambda>right p3.
           logical_and_loop h n (BinaryExpression expr (tok_value operator) right) p3))
       else Some (Inr expr, p1))"
|   "equality h 0 p = None"
| "equality h (Suc n) p =
     pbind (comparison h n p) (\<lambda>expr p1. equality_loop h n expr p1)"
|   "equality_loop h 0 expr p = None"
| "equality_loop h (Suc n) expr p =
     pbind (Some (match p [EQUAL, NOT_EQUAL])) (\<lambda>m p1.
       if m then
         pbind (Some (previous p1)) (\<lambda>operator p2.
         pbind (comparison h n p2) (\<lambda>right p3.
           equality_loop h n (BinaryExpression expr (tok_value operator) right) p3))
       else Some (Inr expr, p1))"
|   "comparison h 0 p = None"
| "comparison h (Suc n) p =
     pbind (Parser_term h n p) (\<lambda>expr p1. comparison_loop h n expr p1)"
|   "comparison_loop h 0 expr p = None"
| "comparison_loop h (Suc n) expr p =
     pbind (Some (match p [GREATER_THAN, GREATER_EQUAL, LESS_THAN, LESS_EQUAL])) (\<lambda>m p1.
       if m then
         pbind (Some (previous p1)) (\<lambda>operator p2.
         pbind (Parser_term h n p2) (\<lambda>right p3.
           comparison_loop h n (BinaryExpression expr (tok_value operator) right) p3))
       else Some (Inr expr, p1))"
|   "Parser_term h 0 p = None"
| "Parser_term h (Suc n) p =
     pbind (factor h n p) (\<lambda>expr p1. Parser_term_loop h n expr p1)"
|   "Parser_term_loop h 0 expr p = None"
| "Parser_term_loop h (Suc n) expr p =
     pbind (Some (match p [MINUS, PLUS])) (\<lambda>m p1.
       if m then
         pbind (Some (previous p1)) (\<lambda>operator p2.
         pbind (factor h n p2) (\<lambda>right p3.
           Parser_term_loop h n (BinaryExpression expr (tok_value operator) right) p3))
       else Some (Inr expr, p1))"
|   "factor h 0 p = None"
| "factor h (Suc n) p =
     pbind (unary h n p) (\<lambda>expr p1. factor_loop h n expr p1)"
|   "factor_loop h 0 expr p = None"
| "factor_loop h (Suc n) expr p =
     pbind (Some (match p [DIVIDE, MULTIPLY, MODULO])) (\<lambda>m p1.
       if m then
         pbind (Some (previous p1)) (\<lambda>operator p2.
         pbind (unary h n p2) (\<lambda>right p3.
           factor_loop h n (BinaryExpression expr (tok_value operator) right) p3))
       else Some (Inr expr, p1))"
|   "unary h 0 p = None"
| "unary h (Suc n) p =
     pbind (Some (match p [NOT, MINUS])) (\<lambda>m p1.
       if m then
         pbind (Some (previous p1)) (\<lambda>operator p2.
         pbind (unary h n p2) (\<lambda>right p3.
           Some (Inr (UnaryExpression (tok_value operator) right), p3)))
       else call h n p1)"
|   "call h 0 p = None"
| "call h (Suc n) p =
     pbind (primary h n p) (\<lambda>expr p1. call_loop h n expr p1)"
|   "call_loop h 0 expr p = None"
| "call_loop h (Suc n) expr p =
     pbind (Some (match p [LEFT_PAREN])) (\<lambda>m p1.
       if m then pbind (finish_call h n expr p1) (\<lambda>expr2 p2. call_loop h n expr2 p2)
       else Some (Inr expr, p1))"
|   "finish_call h 0 callee p = None"
| "finish_call h (Suc n) callee p =
     pbind (Some (check p RIGHT_PAREN)) (\<lambda>c p1.
     pbind
       (if \<not> c then
          pbind (expression h n p1) (\<lambda>arg p2. arguments_loop h n [arg] p2)
        else Some (Inr [], p1))
       (\<lambda>arguments p3.
     pbind (Some (consume p3 RIGHT_PAREN (''Expected '' @ [CHR 0x27] @ '')'' @ [CHR 0x27] @ '' after arguments''))) (\<lambda>t p4.
       Some (Inr (CallExpression callee arguments), p4))))"
|   "arguments_loop h 0 arguments p = None"
| "arguments_loop h (Suc n) arguments p =
     pbind (Some (match p [COMMA])) (\<lambda>m p1.
       if m then
         pbind (expression h n p1) (\<lambda>arg p2. arguments_loop h n (arguments @ [arg]) p2)
       else Some (Inr arguments, p1))"
|   "primary h 0 p = None"
| "primary h (Suc n) p =
     pbind (Some (match p [TRUE])) (\<lambda>m1 p1.
     if m1 then Some (Inr (LiteralExpression (CBool True) ''boolean''), p1) else
     pbind (Some (match p1 [FALSE])) (\<lambda>m2 p2.
     if m2 then Some (Inr (LiteralExpression (CBool False) ''boolean''), p2) else
     pbind (Some (match p2 [NUMBER])) (\<lambda>m3 p3.
     if m3 then
       pbind (Some (previous p3)) (\<lambda>t p4.
         if CHR ''.'' \<in> set (tok_value t) then
           (case py_float h (tok_value t) of
              Inl e \<Rightarrow> Some (Inl e, p4)
            | Inr x \<Rightarrow> Some (Inr (LiteralExpression (CFloat x) ''number''), p4))
         else
           (case py_int (tok_value t) of
              Inl e \<Rightarrow> Some (Inl e, p4)
            | Inr i \<Rightarrow> Some (Inr (LiteralExpression (CInt i) ''number''), p4)))
     else
     pbind (Some (match p3 [STRING])) (\<lambda>m4 p4.
     if m4 then
       pbind (Some (previous p4)) (\<lambda>t p5. Some (Inr (LiteralExpression (CStr (tok_value t)) ''string''), p5))
     else
     pbind (Some (match p4 [IDENTIFIER])) (\<lambda>m5 p5.
     if m5 then
       pbind (Some (previous p5)) (\<lambda>t p6. Some (Inr (IdentifierExpression (tok_value t)), p6))
     else
     pbind (Some (match p5 [LEFT_PAREN])) (\<lambda>m6 p6.
     if m6 then
       pbind (expression h n p6) (\<lambda>expr p7.
       pbind (Some (consume p7 RIGHT_PAREN (''Expected '' @ [CHR 0x27] @ '')'' @ [CHR 0x27] @ '' after expression''))) (\<lambda>t p8.
         Some (Inr expr, p8)))
     else
     pbind (Some (peek p6)) (\<lambda>current_token p7. Some (Inl (unexpected_token current_token), p7))))))))"
  by pat_completeness auto
termination
  by (relation "measure
     (case_sum (case_sum (case_sum (case_sum (case_sum (\<lambda>p. fst (snd p)) (\<lambda>p.
     fst (snd p))) (case_sum (\<lambda>p. fst (snd p)) (\<lambda>p. fst (snd p)))) (case_sum
     (case_sum (\<lambda>p. fst (snd p)) (\<lambda>p. fst (snd p))) (case_sum (\<lambda>p. fst
     (snd p)) (\<lambda>p. fst (snd p))))) (case_sum (case_sum (case_sum (\<lambda>p. fst (snd
     p)) (\<lambda>p. fst (snd p))) (case_sum (\<lambda>p. fst (snd p)) (\<lambda>p. fst (snd
     p)))) (case_sum (case_sum (\<lambda>p. fst (snd p)) (\<lambda>p. fst (snd p))) (case_sum
     (\<lambda>p. fst (snd p)) (case_sum (\<lambda>p. fst (snd p)) (\<lambda>p. fst (snd
     p))))))) (case_sum (case_sum (case_sum (case_sum (\<lambda>p. fst (snd p)) (\<lambda>p.
     fst (snd p))) (case_sum (\<lambda>p. fst (snd p)) (\<lambda>p. fst (snd p)))) (case_sum
     (case_sum (\<lambda>p. fst (snd p)) (\<lambda>p. fst (snd p))) (case_sum (\<lambda>p. fst
     (snd p)) (\<lambda>p. fst (snd p))))) (case_sum (case_sum (case_sum (\<lambda>p. fst (snd
     p)) (\<lambda>p. fst (snd p))) (case_sum (\<lambda>p. fst (snd p)) (\<lambda>p. fst (snd
     p)))) (case_sum (case_sum (\<lambda>p. fst (snd p)) (\<lambda>p. fst (snd p))) (case_sum
     (\<lambda>p. fst (snd p)) (case_sum (\<lambda>p. fst (snd p)) (\<lambda>p. fst (snd
     p))))))))") auto

text \<open>\<open>Parser(tokens).parse()\<close>.\<close>

definition Parser_parse :: "host \<Rightarrow> nat \<Rightarrow> Token list \<Rightarrow> Program parsing" where
  "Parser_parse h n toks =
     pbind (parse_loop h n [] (new_Parser toks)) (\<lambda>statements p. Some (Inr (Program statements), p))"

section \<open>Assignment and the scope chain\<close>

lemma find_holds: "find P xs = Some a \<Longrightarrow> P a"
  by (induction xs) (auto split: if_splits)

lemma assign_find:
  "Environment_assign e name v st =
     (case find (\<lambda>a. st a name \<noteq> None) (chain e) of
        Some a \<Rightarrow> (Normal (), st(a := (st a)(name \<mapsto> v)))
      | None \<Rightarrow> (Raised (undefined_variable name), st))"
proof (induction e name v st rule: Environment_assign.induct)
  case (1 a p name v st)
  show ?case
  proof (cases "st a name \<noteq> None")
    case True
    then show ?thesis by simp
  next
    case False
    note notdef = this
    show ?thesis
    proof (cases p)
      case None
      with notdef show ?thesis by simp
    next
      case (Some e)
      with notdef 1 show ?thesis
        by (simp add: undefined_variable_def split: option.splits)
    qed
  qed
qed

lemma assign_dom:
  "dom (snd (Environment_assign e name v st) b) = dom (st b)"
proof (cases "find (\<lambda>a. st a name \<noteq> None) (chain e)")
  case None
  then show ?thesis by (simp add: assign_find)
next
  case (Some a)
  from find_holds [OF Some] have "name \<in> dom (st a)" by auto
  with Some show ?thesis by (auto simp add: assign_find)
qed

text \<open>
  C7. \<open>Environment.assign\<close> updates the dictionary of the first environment on the
  parent chain (innermost first) that already holds the name, and leaves every other
  dictionary as it was; when no environment on the chain holds the name it raises
  KSRuntimeError "Undefined variable" and changes no dictionary. In both cases every
  dictionary keeps its set of names, so no binding is created. An assignment expression
  evaluates its right-hand side and then does exactly this on the current environment.
\<close>

theorem assignment_mutates_innermost_defining_scope:
  "Environment_assign e name v st =
     (case find (\<lambda>a. st a name \<noteq> None) (chain e) of
        Some a \<Rightarrow> (Normal (), st(a := (st a)(name \<mapsto> v)))
      | None \<Rightarrow> (Raised (undefined_variable name), st))
   \<and> (\<forall>b. dom (snd (Environment_assign e name v st) b) = dom (st b))
   \<and> evaluate h (Suc n) (AssignmentExpression name ex) s =
       and_then (evaluate h n ex s) (\<lambda>v s1.
         (case find (\<lambda>a. store s1 a name \<noteq> None) (chain (environment s1)) of
            Some a \<Rightarrow> Some (Normal v, s1\<lparr>store := (store s1)(a := (store s1 a)(name \<mapsto> v))\<rparr>)
          | None \<Rightarrow> Some (Raised (undefined_variable name), s1)))"
proof -
  have inner: "\<And>v s1.
      (case Environment_assign (environment s1) name v (store s1) of
          (Normal u, st) \<Rightarrow> Some (Normal v, s1\<lparr>store := st\<rparr>)
        | (Raised x, st) \<Rightarrow> Some (Raised x, s1\<lparr>store := st\<rparr>)
        | (ReturnValue w, st) \<Rightarrow> Some (ReturnValue w, s1\<lparr>store := st\<rparr>)) =
      (case find (\<lambda>a. store s1 a name \<noteq> None) (chain (environment s1)) of
            Some a \<Rightarrow> Some (Normal v, s1\<lparr>store := (store s1)(a := (store s1 a)(name \<mapsto> v))\<rparr>)
          | None \<Rightarrow> Some (Raised (undefined_variable name), s1))"
    by (simp add: assign_find split: option.splits)
  have "evaluate h (Suc n) (AssignmentExpression name ex) s =
       and_then (evaluate h n ex s) (\<lambda>v s1.
         (case find (\<lambda>a. store s1 a name \<noteq> None) (chain (environment s1)) of
            Some a \<Rightarrow> Some (Normal v, s1\<lparr>store := (store s1)(a := (store s1 a)(name \<mapsto> v))\<rparr>)
          | None \<Rightarrow> Some (Raised (undefined_variable name), s1)))"
    by (simp only: evaluate.simps inner)
  then show ?thesis
    using assign_find assign_dom by blast
qed

end
